theory Spec2Isabelle
  imports Complex_Main
begin

section \<open>JavaScript strings and the regular expressions of the voice agent\<close>

text \<open>
  A JavaScript string is a sequence of UTF-16 code units; the regular expressions of
  \<^verbatim>\<open>arabic-voice-config.ts\<close> carry no \<^verbatim>\<open>u\<close> flag, so they match code unit by
  code unit. A string is therefore a list of code-unit values.
\<close>

type_synonym jsstring = "nat list"

text \<open>The class \<^verbatim>\<open>\s\<close>, which is also what \<^verbatim>\<open>String.prototype.trim\<close> strips.\<close>

definition isWhiteSpace :: "nat \<Rightarrow> bool" where
  "isWhiteSpace c \<longleftrightarrow>
     c \<in> {0x09, 0x0A, 0x0B, 0x0C, 0x0D, 0x20, 0xA0, 0x1680, 0x2028, 0x2029,
          0x202F, 0x205F, 0x3000, 0xFEFF}
     \<or> (0x2000 \<le> c \<and> c \<le> 0x200A)"

definition trim :: "jsstring \<Rightarrow> jsstring" where
  "trim s = rev (dropWhile isWhiteSpace (rev (dropWhile isWhiteSpace s)))"

text \<open>
  The Arabic pattern of \<^verbatim>\<open>streamTTS\<close> and \<^verbatim>\<open>detectLanguage\<close>: the ranges
  U+0600 to U+06FF, U+0750 to U+077F, U+08A0 to U+08FF, U+FB50 to U+FDFF and U+FE70 to U+FEFF.
\<close>

definition isArabic :: "nat \<Rightarrow> bool" where
  "isArabic c \<longleftrightarrow>
     (0x0600 \<le> c \<and> c \<le> 0x06FF) \<or> (0x0750 \<le> c \<and> c \<le> 0x077F) \<or>
     (0x08A0 \<le> c \<and> c \<le> 0x08FF) \<or> (0xFB50 \<le> c \<and> c \<le> 0xFDFF) \<or>
     (0xFE70 \<le> c \<and> c \<le> 0xFEFF)"

definition hasArabic :: "jsstring \<Rightarrow> bool" where
  "hasArabic text = list_ex isArabic text"

text \<open>Removal of the directional marks U+202A to U+202E.\<close>

definition isDirectionalMark :: "nat \<Rightarrow> bool" where
  "isDirectionalMark c \<longleftrightarrow> 0x202A \<le> c \<and> c \<le> 0x202E"

definition removeDirectionalMarks :: "jsstring \<Rightarrow> jsstring" where
  "removeDirectionalMarks s = filter (\<lambda>c. \<not> isDirectionalMark c) s"

text \<open>\<^verbatim>\<open>.replace(/\s+/g, ' ')\<close>: every maximal run of white space becomes one space.\<close>

function normalizeSpaces :: "jsstring \<Rightarrow> jsstring" where
  "normalizeSpaces [] = []"
| "normalizeSpaces (c # cs) =
     (if isWhiteSpace c then 0x20 # normalizeSpaces (dropWhile isWhiteSpace cs)
      else c # normalizeSpaces cs)"
  by pat_completeness auto
termination
  by (relation "measure length") (auto simp: less_Suc_eq_le length_dropWhile_le)

text \<open>
  \<^verbatim>\<open>processedText.match(/[.!?\<dots>]$/)\<close> of \<^verbatim>\<open>streamTTS\<close>: the last code unit of the
  string is one of full stop, exclamation mark, question mark, Arabic comma (U+060C) or
  Arabic question mark (U+061F). There is no \<^verbatim>\<open>m\<close> flag, so \<^verbatim>\<open>$\<close> is the end of input.
\<close>

definition isTerminalPunctuation :: "nat \<Rightarrow> bool" where
  "isTerminalPunctuation c \<longleftrightarrow> c \<in> {0x2E, 0x21, 0x3F, 0x060C, 0x061F}"

definition endsWithPunctuation :: "jsstring \<Rightarrow> bool" where
  "endsWithPunctuation s \<longleftrightarrow> s \<noteq> [] \<and> isTerminalPunctuation (last s)"

text \<open>\<^verbatim>\<open>buffer.match(/[.!?]\s/)\<close> of the streaming loops.\<close>

fun hasSentenceEnd :: "jsstring \<Rightarrow> bool" where
  "hasSentenceEnd (a # b # rest) =
     ((a \<in> {0x2E, 0x21, 0x3F} \<and> isWhiteSpace b) \<or> hasSentenceEnd (b # rest))"
| "hasSentenceEnd _ = False"


section \<open>Configuration and the synthesis request of \<^verbatim>\<open>streamTTS\<close>\<close>

datatype provider = OpenAI | Groq

datatype voice = Alloy | Echo | Fable | Onyx | Nova | Shimmer

record voice_config =
  llmProvider :: provider
  llmModel :: string
  sttProvider :: provider
  sttModel :: string
  ttsVoice :: voice
  ttsSpeed :: rat
  streamResponse :: bool
  temperature :: rat
  systemPrompt :: jsstring

text \<open>The arguments of \<^verbatim>\<open>openai.audio.speech.create\<close> that depend on the text.\<close>

record tts_request =
  voice :: voice
  speed :: rat
  input :: jsstring

text \<open>
  The \<^verbatim>\<open>if (hasArabic)\<close> block of \<^verbatim>\<open>streamTTS\<close>: trim, strip directional marks,
  normalise spaces, wrap in U+202B \<dots> U+202C, and only then test for final punctuation.
\<close>

definition processedText :: "jsstring \<Rightarrow> jsstring" where
  "processedText text =
     (if hasArabic text then
        (let wrapped = [0x202B] @ normalizeSpaces (removeDirectionalMarks (trim text)) @ [0x202C]
         in if \<not> endsWithPunctuation wrapped then wrapped @ [0x2E] else wrapped)
      else text)"

definition ttsRequest :: "voice_config \<Rightarrow> jsstring \<Rightarrow> tts_request" where
  "ttsRequest cfg text =
     \<lparr> voice = (if hasArabic text then Nova else ttsVoice cfg),
       speed = (if hasArabic text then 85 / 100 else ttsSpeed cfg),
       input = processedText text \<rparr>"

text \<open>
  \<^verbatim>\<open>streamTTS\<close> up to its request: nothing is synthesised for a text that trims to the
  empty string.
\<close>

definition streamTTS_request :: "voice_config \<Rightarrow> jsstring \<Rightarrow> tts_request option" where
  "streamTTS_request cfg text = (if trim text = [] then None else Some (ttsRequest cfg text))"

text \<open>
  \<^verbatim>\<open>detectLanguage\<close>. The pattern has no \<^verbatim>\<open>g\<close> flag, so \<^verbatim>\<open>text.match\<close> returns
  either \<^verbatim>\<open>null\<close> or a one-element match array: \<^verbatim>\<open>arabicChars\<close> is 0 or 1.
\<close>

datatype language = Ar | En | Auto

definition detectLanguage :: "jsstring \<Rightarrow> language" where
  "detectLanguage text =
     (let arabicChars = (if hasArabic text then 1 else 0 :: nat);
          totalChars = length text
      in if arabicChars > 0 \<and> (of_nat arabicChars / of_nat totalChars :: rat) > 3 / 10
         then Ar else En)"

text \<open>
  The proportion the specification speaks of: the share of Arabic-script code units in the
  text exceeds 30 percent.
\<close>

definition arabicRatioExceeds30 :: "jsstring \<Rightarrow> bool" where
  "arabicRatioExceeds30 text \<longleftrightarrow> 10 * length (filter isArabic text) > 3 * length text"


text \<open>
  The exported helper \<^verbatim>\<open>processArabicText\<close> prepares a text in the same way, with the
  Arabic semicolon (U+061B) added to the punctuation class, and rewrites three formal phrases
  for the Egyptian dialect. \<^verbatim>\<open>.replace(/literal/g, rep)\<close> replaces the matches of a literal
  pattern from left to right.
\<close>

function replaceAll :: "jsstring \<Rightarrow> jsstring \<Rightarrow> jsstring \<Rightarrow> jsstring" where
  "replaceAll pat rep [] = []"
| "replaceAll pat rep (c # cs) =
     (if pat \<noteq> [] \<and> take (length pat) (c # cs) = pat
      then rep @ replaceAll pat rep (drop (length pat) (c # cs))
      else c # replaceAll pat rep cs)"
  by pat_completeness auto
termination
  by (relation "measure (\<lambda>(pat, rep, s). length s)") auto

datatype dialect = Arabic | Egyptian

definition endsWithArabicPunctuation :: "jsstring \<Rightarrow> bool" where
  "endsWithArabicPunctuation s \<longleftrightarrow>
     s \<noteq> [] \<and> last s \<in> {0x2E, 0x21, 0x3F, 0x060C, 0x061B, 0x061F}"

definition processArabicText :: "jsstring \<Rightarrow> dialect \<Rightarrow> jsstring" where
  "processArabicText text dialect =
     (let trimmed = trim text;
          unmarked = removeDirectionalMarks trimmed;
          spaced = normalizeSpaces unmarked;
          wrapped = [0x202B] @ spaced @ [0x202C];
          processed = (if \<not> endsWithArabicPunctuation wrapped then wrapped @ [0x2E] else wrapped)
      in case dialect of
           Arabic \<Rightarrow> processed
         | Egyptian \<Rightarrow>
             replaceAll [0x634, 0x643, 0x631, 0x627] [0x645, 0x62A, 0x634, 0x643, 0x631]
               (replaceAll [0x645, 0x627, 0x630, 0x627, 0x20, 0x62A, 0x641, 0x639, 0x644]
                  [0x639, 0x627, 0x645, 0x644, 0x20, 0x625, 0x64A, 0x647]
                  (replaceAll [0x643, 0x64A, 0x641, 0x20, 0x62D, 0x627, 0x644, 0x643]
                     [0x625, 0x632, 0x64A, 0x643] processed)))"


section \<open>Noise-floor calibration of \<^verbatim>\<open>VoiceActivityDetector\<close>\<close>

text \<open>
  The fields of the detector that calibration reads and writes. Energies are JavaScript
  numbers; they are modelled as reals, so rounding of the floating-point operations is not
  represented.
\<close>

record vad =
  energyThreshold :: real
  silenceThreshold :: real
  silenceTimeout :: nat
  speechTimeout :: nat
  isSpeaking :: bool
  noiseFloor :: real
  calibrationSamples :: "real list"
  isCalibrating :: bool

text \<open>
  \<^verbatim>\<open>calculateEnergy(data: Uint8Array)\<close>: root mean square of the bins scaled to 0..1. The
  analyser has 1024 bins, so the array is never empty.
\<close>

definition vadEnergy :: "nat list \<Rightarrow> real" where
  "vadEnergy data = sqrt (sum_list (map (\<lambda>d. (real d / 255)\<^sup>2) data) / real (length data))"

text \<open>
  \<^verbatim>\<open>calculateNoiseFloor\<close>. \<^verbatim>\<open>sorted[index]\<close> past the end of the array would be
  \<^verbatim>\<open>undefined\<close> in JavaScript; the model returns \<open>None\<close> there. The \<^verbatim>\<open>calibrated\<close>
  event repeats the three fields and is left out.
\<close>

definition calculateNoiseFloor :: "vad \<Rightarrow> vad option" where
  "calculateNoiseFloor v =
     (if length (calibrationSamples v) = 0 then Some v
      else
        let sorted = sort (calibrationSamples v);
            index = nat \<lfloor>real (length sorted) * 0.75\<rfloor>
        in if index < length sorted then
             let nf = sorted ! index
             in Some (v\<lparr> noiseFloor := nf,
                         energyThreshold := max (nf * 2) 0.02,
                         silenceThreshold := max (nf * 1.5) 0.01 \<rparr>)
           else None)"

text \<open>
  \<^verbatim>\<open>calibrate\<close>: the samples are reset, every interval tick pushes the energy of the
  current frequency data, and the timeout computes the noise floor and ends calibration.
\<close>

definition calibrate_begin :: "vad \<Rightarrow> vad" where
  "calibrate_begin v = v\<lparr> isCalibrating := True, calibrationSamples := [] \<rparr>"

definition calibrate_tick :: "nat list \<Rightarrow> vad \<Rightarrow> vad" where
  "calibrate_tick data v = v\<lparr> calibrationSamples := calibrationSamples v @ [vadEnergy data] \<rparr>"

definition calibrate_end :: "vad \<Rightarrow> vad option" where
  "calibrate_end v = map_option (\<lambda>w. w\<lparr> isCalibrating := False \<rparr>) (calculateNoiseFloor v)"

definition calibrate :: "nat list list \<Rightarrow> vad \<Rightarrow> vad option" where
  "calibrate frames v = calibrate_end (fold calibrate_tick frames (calibrate_begin v))"


section \<open>The streaming agent \<^verbatim>\<open>RealtimeStreamingAgent\<close>\<close>

subsection \<open>State, events and backend calls\<close>

datatype role = User | Assistant

type_synonym turn = "role \<times> jsstring"

type_synonym bytes = "nat list"

type_synonym exn = string

text \<open>
  The audio handed to transcription: the bytes given to \<^verbatim>\<open>processAudioFile\<close>, or the
  merged samples of the buffer that \<^verbatim>\<open>processBufferedAudio\<close> encodes with
  \<^verbatim>\<open>float32ToWav\<close>.
\<close>

datatype audio = Encoded bytes | Wav "real list"

datatype failure = NoSpeechDetected | SpeechRecognitionFailed | Thrown exn

text \<open>
  The events the agent emits. The \<^verbatim>\<open>Date.now()\<close> timings carried by the
  \<^verbatim>\<open>transcript\<close>, \<^verbatim>\<open>response\<close> and \<^verbatim>\<open>complete\<close> events of
  \<^verbatim>\<open>processAudioFile\<close> are left out. Listeners are taken to be registered, as the socket
  handlers of the SDK do, so that emitting \<^verbatim>\<open>error\<close> does not throw.
\<close>

datatype event =
    Transcript jsstring
  | Partial jsstring
  | Response jsstring
  | Audio bytes jsstring
  | Complete jsstring jsstring
  | Error failure
  | Interrupted

text \<open>
  The requests sent to the backends: a transcription, a chat completion (streamed or not, with
  the history it is sent with), a speech synthesis (with the text \<^verbatim>\<open>streamTTS\<close> was called
  on).
\<close>

datatype call =
    STTCall provider audio
  | ChatCall provider bool "turn list"
  | TTSCall tts_request jsstring

datatype obs = Emit event | Call call

text \<open>
  \<^verbatim>\<open>silenceTimer\<close>: \<^verbatim>\<open>null\<close>, a timeout that is still to fire, or the handle of a
  timeout that has fired (the field is reset only by a loud chunk).
\<close>

datatype timer = NoTimer | Pending | Fired

text \<open>The fields of the class, and the trace of what it has emitted and requested.\<close>

record agent =
  config :: voice_config
  conversationHistory :: "turn list"
  isProcessing :: bool
  audioBuffer :: "real list list"
  silenceTimer :: timer
  detectedLanguage :: language
  trace :: "obs list"

definition newAgent :: "voice_config \<Rightarrow> agent" where
  "newAgent cfg =
     \<lparr> config = cfg, conversationHistory = [], isProcessing = False, audioBuffer = [],
       silenceTimer = NoTimer, detectedLanguage = Auto, trace = [] \<rparr>"

definition emit :: "event \<Rightarrow> agent \<Rightarrow> agent" where
  "emit e s = s\<lparr> trace := trace s @ [Emit e] \<rparr>"

definition request :: "call \<Rightarrow> agent \<Rightarrow> agent" where
  "request c s = s\<lparr> trace := trace s @ [Call c] \<rparr>"

subsection \<open>Suspended runs\<close>

text \<open>
  An \<^verbatim>\<open>async\<close> method runs until its next \<^verbatim>\<open>await\<close> of a backend and is resumed by
  the reply. A suspended run is the await it stands at, with the local variables that are
  live there. \<open>File\<close> is a run of \<^verbatim>\<open>processAudioFile\<close>, \<open>Buffered\<close> one of
  \<^verbatim>\<open>processBufferedAudio\<close>.
\<close>

datatype kind = File | Buffered

text \<open>What follows the \<^verbatim>\<open>await this.streamTTS(...)\<close> a run stands at.\<close>

datatype tts_cont =
    FileDone jsstring jsstring
  | BufferedDone
  | StreamLoop provider jsstring
  | StreamDone jsstring

datatype pc =
    AwaitSTT kind provider audio
  | AwaitLLM kind jsstring
  | AwaitStream provider
  | AwaitChunk provider jsstring jsstring
  | AwaitTTS tts_cont jsstring

datatype stream_item = StreamError exn | StreamEnd | Chunk "jsstring option"

datatype reply =
    STTReply "exn + jsstring"
  | LLMReply "exn + jsstring option"
  | StreamOpened "exn option"
  | StreamNext stream_item
  | TTSReply "exn + bytes"

text \<open>The \<^verbatim>\<open>finally\<close> block of both entry points ends the run.\<close>

definition finish :: "agent \<Rightarrow> agent \<times> pc option" where
  "finish s = (s\<lparr> isProcessing := False \<rparr>, None)"

subsection \<open>Synthesis\<close>

definition continue :: "tts_cont \<Rightarrow> agent \<Rightarrow> agent \<times> pc option" where
  "continue k s =
     (case k of
        FileDone transcript response \<Rightarrow> finish (emit (Complete transcript response) s)
      | BufferedDone \<Rightarrow> finish s
      | StreamLoop p fullResponse \<Rightarrow> (s, Some (AwaitChunk p fullResponse []))
      | StreamDone fullResponse \<Rightarrow>
          finish (emit (Response fullResponse)
            (s\<lparr> conversationHistory := conversationHistory s @ [(Assistant, fullResponse)] \<rparr>)))"

text \<open>
  \<^verbatim>\<open>streamTTS\<close>: an early return for a blank text, otherwise the request; on the reply the
  \<^verbatim>\<open>audio\<close> event, or nothing when the backend failed (the \<^verbatim>\<open>catch\<close> only logs).
\<close>

definition streamTTS_begin :: "tts_cont \<Rightarrow> jsstring \<Rightarrow> agent \<Rightarrow> agent \<times> pc option" where
  "streamTTS_begin k text s =
     (case streamTTS_request (config s) text of
        None \<Rightarrow> continue k s
      | Some req \<Rightarrow> (request (TTSCall req text) s, Some (AwaitTTS k text)))"

definition streamTTS_end :: "tts_cont \<Rightarrow> jsstring \<Rightarrow> exn + bytes \<Rightarrow> agent \<Rightarrow> agent \<times> pc option" where
  "streamTTS_end k text r s =
     (case r of
        Inr audioData \<Rightarrow> continue k (emit (Audio audioData text) s)
      | Inl e \<Rightarrow> continue k s)"

subsection \<open>Response generation\<close>

text \<open>\<^verbatim>\<open>conversationHistory.slice(-20)\<close> when the history is longer than 20.\<close>

definition limitHistory :: "turn list \<Rightarrow> turn list" where
  "limitHistory h = (if length h > 20 then drop (length h - 20) h else h)"

definition getLLMResponse_begin :: "kind \<Rightarrow> jsstring \<Rightarrow> agent \<Rightarrow> agent \<times> pc option" where
  "getLLMResponse_begin k userInput s =
     (let s1 = s\<lparr> conversationHistory := conversationHistory s @ [(User, userInput)] \<rparr>
      in (request (ChatCall (llmProvider (config s1)) False (conversationHistory s1)) s1,
          Some (AwaitLLM k userInput)))"

text \<open>
  The rest of \<^verbatim>\<open>getLLMResponse\<close> and what its two callers do with the response:
  the \<^verbatim>\<open>response\<close> event, then \<^verbatim>\<open>streamTTS(response)\<close>.
\<close>

definition getLLMResponse_end :: "kind \<Rightarrow> jsstring \<Rightarrow> jsstring \<Rightarrow> agent \<Rightarrow> agent \<times> pc option" where
  "getLLMResponse_end k transcript response s =
     (let s1 = s\<lparr> conversationHistory :=
                    limitHistory (conversationHistory s @ [(Assistant, response)]) \<rparr>;
          s2 = emit (Response response) s1
      in streamTTS_begin
           (case k of File \<Rightarrow> FileDone transcript response | Buffered \<Rightarrow> BufferedDone)
           response s2)"

text \<open>\<^verbatim>\<open>streamLLMResponse\<close> up to the creation of the stream.\<close>

definition streamLLMResponse :: "jsstring \<Rightarrow> agent \<Rightarrow> agent \<times> pc option" where
  "streamLLMResponse userInput s =
     (let s1 = s\<lparr> conversationHistory := conversationHistory s @ [(User, userInput)] \<rparr>;
          p = llmProvider (config s1)
      in (request (ChatCall p True (conversationHistory s1)) s1, Some (AwaitStream p)))"

text \<open>
  One turn of the \<^verbatim>\<open>for await\<close> loop of \<^verbatim>\<open>streamOpenAIResponse\<close> and
  \<^verbatim>\<open>streamGroqResponse\<close> (the two differ in the client only), and what follows the loop.
\<close>

definition streamLoop ::
  "provider \<Rightarrow> jsstring \<Rightarrow> jsstring \<Rightarrow> stream_item \<Rightarrow> agent \<Rightarrow> agent \<times> pc option" where
  "streamLoop p fullResponse buffer item s =
     (case item of
        StreamError e \<Rightarrow> finish (emit (Error (Thrown e)) s)
      | StreamEnd \<Rightarrow>
          if buffer \<noteq> [] then streamTTS_begin (StreamDone fullResponse) buffer s
          else continue (StreamDone fullResponse) s
      | Chunk c \<Rightarrow>
          let content = (case c of None \<Rightarrow> [] | Some t \<Rightarrow> t);
              fullResponse' = fullResponse @ content;
              buffer' = buffer @ content;
              s1 = emit (Partial content) s
          in if hasSentenceEnd buffer' then streamTTS_begin (StreamLoop p fullResponse') buffer' s1
             else (s1, Some (AwaitChunk p fullResponse' buffer')))"

subsection \<open>Transcription\<close>

text \<open>
  \<^verbatim>\<open>speechToText\<close> calls the configured backend. What the two entry points do with the
  transcript: \<^verbatim>\<open>processAudioFile\<close> reports a missing or blank one,
  \<^verbatim>\<open>processBufferedAudio\<close> returns silently.
\<close>

definition speechToText_begin :: "kind \<Rightarrow> audio \<Rightarrow> agent \<Rightarrow> agent \<times> pc option" where
  "speechToText_begin k a s =
     (let p = (if sttProvider (config s) = Groq then Groq else OpenAI)
      in (request (STTCall p a) s, Some (AwaitSTT k p a)))"

definition after_speechToText :: "kind \<Rightarrow> jsstring option \<Rightarrow> agent \<Rightarrow> agent \<times> pc option" where
  "after_speechToText k transcript s =
     (case k of
        File \<Rightarrow>
          (case transcript of
             None \<Rightarrow> finish (emit (Error NoSpeechDetected) s)
           | Some t \<Rightarrow>
               if t = [] \<or> trim t = [] then finish (emit (Error NoSpeechDetected) s)
               else getLLMResponse_begin File t (emit (Transcript t) s))
      | Buffered \<Rightarrow>
          (case transcript of
             None \<Rightarrow> finish s
           | Some t \<Rightarrow>
               if t = [] then finish s
               else
                 let s1 = emit (Transcript t) s
                 in if streamResponse (config s1) then streamLLMResponse t s1
                    else getLLMResponse_begin Buffered t s1))"

text \<open>
  A reply to \<^verbatim>\<open>groqSTT\<close> or \<^verbatim>\<open>openaiSTT\<close>. Both return the trimmed text. A failure of
  Groq is caught in \<^verbatim>\<open>groqSTT\<close>, which then calls \<^verbatim>\<open>openaiSTT\<close>; a failure of OpenAI
  reaches the \<^verbatim>\<open>catch\<close> of \<^verbatim>\<open>speechToText\<close>, which emits an error and returns
  \<^verbatim>\<open>null\<close>.
\<close>

definition speechToText_end :: "kind \<Rightarrow> provider \<Rightarrow> audio \<Rightarrow> exn + jsstring \<Rightarrow> agent \<Rightarrow> agent \<times> pc option" where
  "speechToText_end k p a r s =
     (case r of
        Inr text \<Rightarrow>
          let transcript = trim text;
              s1 = (if transcript \<noteq> [] then s\<lparr> detectedLanguage := detectLanguage transcript \<rparr>
                    else s)
          in after_speechToText k (Some transcript) s1
      | Inl e \<Rightarrow>
          (case p of
             Groq \<Rightarrow> (request (STTCall OpenAI a) s, Some (AwaitSTT k OpenAI a))
           | OpenAI \<Rightarrow> after_speechToText k None (emit (Error SpeechRecognitionFailed) s)))"

subsection \<open>Resuming a run\<close>

text \<open>A reply that is not the one the run waits for leaves everything as it is.\<close>

fun resume :: "pc \<Rightarrow> reply \<Rightarrow> agent \<Rightarrow> agent \<times> pc option" where
  "resume (AwaitSTT k p a) (STTReply r) s = speechToText_end k p a r s"
| "resume (AwaitLLM k transcript) (LLMReply r) s =
     (case r of
        Inl e \<Rightarrow> finish (emit (Error (Thrown e)) s)
      | Inr content \<Rightarrow>
          getLLMResponse_end k transcript (case content of None \<Rightarrow> [] | Some t \<Rightarrow> t) s)"
| "resume (AwaitStream p) (StreamOpened r) s =
     (case r of
        Some e \<Rightarrow> finish (emit (Error (Thrown e)) s)
      | None \<Rightarrow> (s, Some (AwaitChunk p [] [])))"
| "resume (AwaitChunk p fullResponse buffer) (StreamNext item) s =
     streamLoop p fullResponse buffer item s"
| "resume (AwaitTTS k text) (TTSReply r) s = streamTTS_end k text r s"
| "resume c _ s = (s, Some c)"

text \<open>One run, resumed by a list of replies in turn.\<close>

fun drive :: "reply list \<Rightarrow> agent \<times> pc option \<Rightarrow> agent \<times> pc option" where
  "drive [] x = x"
| "drive (r # rs) (s, None) = (s, None)"
| "drive (r # rs) (s, Some c) = drive rs (resume c r s)"

subsection \<open>Entry points\<close>

definition processAudioFile :: "bytes \<Rightarrow> agent \<Rightarrow> agent \<times> pc option" where
  "processAudioFile audioData s =
     (if isProcessing s then (s, None)
      else speechToText_begin File (Encoded audioData) (s\<lparr> isProcessing := True \<rparr>))"

definition mergeAudioBuffers :: "real list list \<Rightarrow> real list" where
  "mergeAudioBuffers buffers = concat buffers"

definition processBufferedAudio :: "agent \<Rightarrow> agent \<times> pc option" where
  "processBufferedAudio s =
     (if isProcessing s \<or> length (audioBuffer s) = 0 then (s, None)
      else
        let merged = mergeAudioBuffers (audioBuffer s)
        in speechToText_begin Buffered (Wav merged)
             (s\<lparr> isProcessing := True, audioBuffer := [] \<rparr>))"

text \<open>
  \<^verbatim>\<open>calculateEnergy(buffer: Float32Array)\<close>. For an empty chunk JavaScript computes
  \<^verbatim>\<open>NaN\<close>, which is not greater than 0.01; here the quotient is 0, with the same outcome of
  the comparison.
\<close>

definition calculateEnergy :: "real list \<Rightarrow> real" where
  "calculateEnergy buffer = sqrt (sum_list (map (\<lambda>x. x * x) buffer) / real (length buffer))"

definition processContinuousAudio :: "real list \<Rightarrow> agent \<Rightarrow> agent" where
  "processContinuousAudio audioChunk s =
     (let s1 = s\<lparr> audioBuffer := audioBuffer s @ [audioChunk] \<rparr>;
          energy = calculateEnergy audioChunk
      in if energy > 0.01 then
           (if silenceTimer s1 \<noteq> NoTimer then s1\<lparr> silenceTimer := NoTimer \<rparr> else s1)
         else
           (if silenceTimer s1 = NoTimer \<and> length (audioBuffer s1) > 0
            then s1\<lparr> silenceTimer := Pending \<rparr> else s1))"

text \<open>The callback of the silence timeout, one second after it was set.\<close>

definition silenceTimerFires :: "agent \<Rightarrow> agent \<times> pc option" where
  "silenceTimerFires s =
     (if silenceTimer s = Pending then processBufferedAudio (s\<lparr> silenceTimer := Fired \<rparr>)
      else (s, None))"

definition interrupt :: "agent \<Rightarrow> agent" where
  "interrupt s =
     (if isProcessing s then emit Interrupted (s\<lparr> isProcessing := False, audioBuffer := [] \<rparr>)
      else s)"

definition clearHistory :: "agent \<Rightarrow> agent" where
  "clearHistory s = s\<lparr> conversationHistory := [], audioBuffer := [] \<rparr>"

definition updateConfig :: "(voice_config \<Rightarrow> voice_config) \<Rightarrow> agent \<Rightarrow> agent" where
  "updateConfig upd s = s\<lparr> config := upd (config s) \<rparr>"

subsection \<open>A session: the agent and its suspended runs\<close>

record session =
  ag :: agent
  runs :: "pc list"

datatype action =
    ProcessAudioFile bytes
  | ProcessContinuousAudio "real list"
  | SilenceTimerFires
  | Interrupt
  | ClearHistory
  | UpdateConfig "voice_config \<Rightarrow> voice_config"
  | Deliver nat reply

definition spawn :: "pc list \<Rightarrow> agent \<times> pc option \<Rightarrow> session" where
  "spawn rs x = \<lparr> ag = fst x, runs = rs @ (case snd x of None \<Rightarrow> [] | Some c \<Rightarrow> [c]) \<rparr>"

definition deliver :: "nat \<Rightarrow> reply \<Rightarrow> session \<Rightarrow> session" where
  "deliver i r \<sigma> =
     (if i < length (runs \<sigma>) then
        (case resume (runs \<sigma> ! i) r (ag \<sigma>) of
           (s, None) \<Rightarrow> \<lparr> ag = s, runs = take i (runs \<sigma>) @ drop (Suc i) (runs \<sigma>) \<rparr>
         | (s, Some c) \<Rightarrow> \<lparr> ag = s, runs = (runs \<sigma>)[i := c] \<rparr>)
      else \<sigma>)"

fun step :: "action \<Rightarrow> session \<Rightarrow> session" where
  "step (ProcessAudioFile audioData) \<sigma> = spawn (runs \<sigma>) (processAudioFile audioData (ag \<sigma>))"
| "step (ProcessContinuousAudio audioChunk) \<sigma> = \<sigma>\<lparr> ag := processContinuousAudio audioChunk (ag \<sigma>) \<rparr>"
| "step SilenceTimerFires \<sigma> = spawn (runs \<sigma>) (silenceTimerFires (ag \<sigma>))"
| "step Interrupt \<sigma> = \<sigma>\<lparr> ag := interrupt (ag \<sigma>) \<rparr>"
| "step ClearHistory \<sigma> = \<sigma>\<lparr> ag := clearHistory (ag \<sigma>) \<rparr>"
| "step (UpdateConfig upd) \<sigma> = \<sigma>\<lparr> ag := updateConfig upd (ag \<sigma>) \<rparr>"
| "step (Deliver i r) \<sigma> = deliver i r \<sigma>"

definition exec :: "action list \<Rightarrow> session \<Rightarrow> session" where
  "exec as \<sigma> = fold step as \<sigma>"

text \<open>
  The configuration the constructor builds when it is given no overrides; the default system
  prompt is a fixed text and is taken as a parameter.
\<close>

definition defaultConfig :: "jsstring \<Rightarrow> voice_config" where
  "defaultConfig prompt =
     \<lparr> llmProvider = Groq, llmModel = ''llama3-8b-8192'', sttProvider = OpenAI,
       sttModel = ''whisper-1'', ttsVoice = Nova, ttsSpeed = 1, streamResponse = True,
       temperature = 7 / 10, systemPrompt = prompt \<rparr>"

definition newSession :: "voice_config \<Rightarrow> session" where
  "newSession cfg = \<lparr> ag = newAgent cfg, runs = [] \<rparr>"


subsection \<open>Properties of traces and sessions\<close>


text \<open>A chunk that \<^verbatim>\<open>processContinuousAudio\<close> takes for silence.\<close>

definition silentChunk :: "real list \<Rightarrow> bool" where
  "silentChunk audioChunk \<longleftrightarrow> \<not> calculateEnergy audioChunk > 0.01"


text \<open>
  Audio in the order of dispatch: every \<^verbatim>\<open>audio\<close> event carries the text of the latest
  synthesis request, and a request is answered by at most one \<^verbatim>\<open>audio\<close> event. The first
  argument is the text of the request that is still open.
\<close>

fun audioInOrder :: "jsstring option \<Rightarrow> obs list \<Rightarrow> bool" where
  "audioInOrder p [] = True"
| "audioInOrder p (Call (TTSCall req text) # xs) = audioInOrder (Some text) xs"
| "audioInOrder p (Emit (Audio b text) # xs) = (p = Some text \<and> audioInOrder None xs)"
| "audioInOrder p (x # xs) = audioInOrder p xs"

fun pendingText :: "jsstring option \<Rightarrow> obs list \<Rightarrow> jsstring option" where
  "pendingText p [] = p"
| "pendingText p (Call (TTSCall req text) # xs) = pendingText (Some text) xs"
| "pendingText p (Emit (Audio b text) # xs) = pendingText None xs"
| "pendingText p (x # xs) = pendingText p xs"

text \<open>No \<^verbatim>\<open>audio\<close> event after a \<^verbatim>\<open>response\<close> event.\<close>

fun noAudioAfterResponse :: "bool \<Rightarrow> obs list \<Rightarrow> bool" where
  "noAudioAfterResponse seen [] = True"
| "noAudioAfterResponse seen (Emit (Response t) # xs) = noAudioAfterResponse True xs"
| "noAudioAfterResponse seen (Emit (Audio b t) # xs) = (\<not> seen \<and> noAudioAfterResponse seen xs)"
| "noAudioAfterResponse seen (x # xs) = noAudioAfterResponse seen xs"

text \<open>Every \<^verbatim>\<open>audio\<close> event has a \<^verbatim>\<open>response\<close> event before it.\<close>

fun responseBeforeAudio :: "bool \<Rightarrow> obs list \<Rightarrow> bool" where
  "responseBeforeAudio seen [] = True"
| "responseBeforeAudio seen (Emit (Response t) # xs) = responseBeforeAudio True xs"
| "responseBeforeAudio seen (Emit (Audio b t) # xs) = (seen \<and> responseBeforeAudio seen xs)"
| "responseBeforeAudio seen (x # xs) = responseBeforeAudio seen xs"

fun hasResponse :: "obs list \<Rightarrow> bool" where
  "hasResponse [] = False"
| "hasResponse (Emit (Response t) # xs) = True"
| "hasResponse (x # xs) = hasResponse xs"

text \<open>What an agent has recorded since an earlier state of it.\<close>

definition since :: "agent \<Rightarrow> agent \<Rightarrow> obs list" where
  "since s s' = drop (length (trace s)) (trace s')"

text \<open>
  Every \<^verbatim>\<open>audio\<close> event carries the text of the latest \<^verbatim>\<open>response\<close> event before it.
  The first argument is the text of that event, if there has been one.
\<close>

fun audioFollowsResponse :: "jsstring option \<Rightarrow> obs list \<Rightarrow> bool" where
  "audioFollowsResponse r [] = True"
| "audioFollowsResponse r (Emit (Response t) # xs) = audioFollowsResponse (Some t) xs"
| "audioFollowsResponse r (Emit (Audio b t) # xs) = (r = Some t \<and> audioFollowsResponse r xs)"
| "audioFollowsResponse r (x # xs) = audioFollowsResponse r xs"

fun lastResponse :: "jsstring option \<Rightarrow> obs list \<Rightarrow> jsstring option" where
  "lastResponse r [] = r"
| "lastResponse r (Emit (Response t) # xs) = lastResponse (Some t) xs"
| "lastResponse r (x # xs) = lastResponse r xs"

text \<open>
  The sentences of a streamed response. The first two arguments are the text streamed so far
  and the part of it streamed since the last synthesis request. Every synthesis request is
  made for exactly that part, and a \<^verbatim>\<open>response\<close> event carries all the text streamed,
  with nothing but white space left unrequested.
\<close>

fun sentencesOfResponse :: "jsstring \<Rightarrow> jsstring \<Rightarrow> obs list \<Rightarrow> bool" where
  "sentencesOfResponse full buf [] = True"
| "sentencesOfResponse full buf (Emit (Partial c) # xs) =
     sentencesOfResponse (full @ c) (buf @ c) xs"
| "sentencesOfResponse full buf (Call (TTSCall req t) # xs) =
     (t = buf \<and> sentencesOfResponse full [] xs)"
| "sentencesOfResponse full buf (Emit (Response r) # xs) =
     (r = full \<and> trim buf = [] \<and> sentencesOfResponse full buf xs)"
| "sentencesOfResponse full buf (x # xs) = sentencesOfResponse full buf xs"

fun streamedFull :: "jsstring \<Rightarrow> obs list \<Rightarrow> jsstring" where
  "streamedFull full [] = full"
| "streamedFull full (Emit (Partial c) # xs) = streamedFull (full @ c) xs"
| "streamedFull full (x # xs) = streamedFull full xs"

fun streamedBuffer :: "jsstring \<Rightarrow> obs list \<Rightarrow> jsstring" where
  "streamedBuffer buf [] = buf"
| "streamedBuffer buf (Emit (Partial c) # xs) = streamedBuffer (buf @ c) xs"
| "streamedBuffer buf (Call (TTSCall req t) # xs) = streamedBuffer [] xs"
| "streamedBuffer buf (x # xs) = streamedBuffer buf xs"

text \<open>
  What holds of the trace of a run at each await: in every run, in a run that does not
  stream, and in a run that streams.
\<close>

definition orderInv :: "nat \<Rightarrow> agent \<times> pc option \<Rightarrow> bool" where
  "orderInv n x =
     (n \<le> length (trace (fst x)) \<and>
      audioInOrder None (drop n (trace (fst x))) \<and>
      (case snd x of
         None \<Rightarrow> True
       | Some c \<Rightarrow>
           (case c of AwaitTTS k t \<Rightarrow> pendingText None (drop n (trace (fst x))) = Some t
            | _ \<Rightarrow> True)))"

definition plainPc :: "voice_config \<Rightarrow> pc \<Rightarrow> bool" where
  "plainPc cfg c =
     (case c of
        AwaitSTT k p a \<Rightarrow> (case k of File \<Rightarrow> True | Buffered \<Rightarrow> \<not> streamResponse cfg)
      | AwaitLLM k t \<Rightarrow> True
      | AwaitTTS k t \<Rightarrow>
          (case k of FileDone tr resp \<Rightarrow> True | BufferedDone \<Rightarrow> True | _ \<Rightarrow> False)
      | _ \<Rightarrow> False)"

definition plainInv :: "nat \<Rightarrow> agent \<times> pc option \<Rightarrow> bool" where
  "plainInv n x =
     (n \<le> length (trace (fst x)) \<and>
      audioFollowsResponse None (drop n (trace (fst x))) \<and>
      (case snd x of
         None \<Rightarrow> True
       | Some c \<Rightarrow>
           plainPc (config (fst x)) c \<and>
           (case c of AwaitTTS k t \<Rightarrow> lastResponse None (drop n (trace (fst x))) = Some t
            | _ \<Rightarrow> True)))"

definition streamPc :: "voice_config \<Rightarrow> pc \<Rightarrow> bool" where
  "streamPc cfg c =
     (case c of
        AwaitSTT k p a \<Rightarrow> (case k of File \<Rightarrow> False | Buffered \<Rightarrow> streamResponse cfg)
      | AwaitLLM k t \<Rightarrow> False
      | AwaitStream p \<Rightarrow> True
      | AwaitChunk p full buf \<Rightarrow> True
      | AwaitTTS k t \<Rightarrow>
          (case k of StreamLoop p full \<Rightarrow> True | StreamDone full \<Rightarrow> True | _ \<Rightarrow> False))"

definition streamState :: "pc \<Rightarrow> jsstring \<times> jsstring" where
  "streamState c =
     (case c of
        AwaitChunk p full buf \<Rightarrow> (full, buf)
      | AwaitTTS k t \<Rightarrow>
          (case k of StreamLoop p full \<Rightarrow> (full, []) | StreamDone full \<Rightarrow> (full, [])
           | _ \<Rightarrow> ([], []))
      | _ \<Rightarrow> ([], []))"

definition streamInv :: "nat \<Rightarrow> agent \<times> pc option \<Rightarrow> bool" where
  "streamInv n x =
     (n \<le> length (trace (fst x)) \<and>
      sentencesOfResponse [] [] (drop n (trace (fst x))) \<and>
      (case snd x of
         None \<Rightarrow> noAudioAfterResponse False (drop n (trace (fst x)))
       | Some c \<Rightarrow>
           streamPc (config (fst x)) c \<and>
           \<not> hasResponse (drop n (trace (fst x))) \<and>
           streamedFull [] (drop n (trace (fst x))) = fst (streamState c) \<and>
           streamedBuffer [] (drop n (trace (fst x))) = snd (streamState c)))"

text \<open>At most one suspended run, and none unless \<^verbatim>\<open>isProcessing\<close> is set.\<close>

definition singleFlight :: "session \<Rightarrow> bool" where
  "singleFlight \<sigma> \<longleftrightarrow> length (runs \<sigma>) \<le> 1 \<and> (runs \<sigma> \<noteq> [] \<longrightarrow> isProcessing (ag \<sigma>))"


section \<open>Evaluation of concrete runs and shared lemmas\<close>

lemmas run_defs =
  exec_def newSession_def newAgent_def defaultConfig_def spawn_def deliver_def
  processAudioFile_def processBufferedAudio_def processContinuousAudio_def silenceTimerFires_def
  interrupt_def clearHistory_def updateConfig_def mergeAudioBuffers_def calculateEnergy_def
  speechToText_begin_def speechToText_end_def after_speechToText_def
  getLLMResponse_begin_def getLLMResponse_end_def limitHistory_def
  streamLLMResponse_def streamLoop_def streamTTS_begin_def streamTTS_end_def continue_def
  finish_def emit_def request_def
  streamTTS_request_def ttsRequest_def processedText_def hasArabic_def isArabic_def
  trim_def isWhiteSpace_def detectLanguage_def Let_def

text \<open>A blank transcript ends a run of either entry point.\<close>

lemma blank_transcript_end:
  assumes "trim text = []"
  shows "speechToText_end k p a (Inr text) s =
     (s\<lparr> isProcessing := False,
         trace := trace s @ (case k of File \<Rightarrow> [Emit (Error NoSpeechDetected)] | Buffered \<Rightarrow> []) \<rparr>,
      None)"
  using assms
  by (cases k) (simp_all add: speechToText_end_def after_speechToText_def finish_def emit_def)

lemma trim_Nil: "trim [] = []"
  by (simp add: trim_def)


section \<open>Conversation history (C1)\<close>

lemma limitHistory_length: "length (limitHistory h) \<le> 20"
  by (simp add: limitHistory_def)

lemma limitHistory_suffix: "limitHistory h = drop (length h - 20) h"
  by (simp add: limitHistory_def)

text \<open>
  The non-streaming path bounds the history: whenever \<^verbatim>\<open>getLLMResponse\<close> returns, at most
  20 turns are kept, the most recent ones.
\<close>

lemma getLLMResponse_end_history:
  "conversationHistory (fst (getLLMResponse_end k transcript response s)) =
     limitHistory (conversationHistory s @ [(Assistant, response)])"
  by (cases k)
     (simp_all add: getLLMResponse_end_def streamTTS_begin_def continue_def finish_def emit_def
        request_def Let_def split: option.splits)

lemma getLLMResponse_end_bounded:
  "length (conversationHistory (fst (getLLMResponse_end k transcript response s))) \<le> 20"
  by (simp add: getLLMResponse_end_history limitHistory_length)

text \<open>The end of a streaming run appends the assistant turn and keeps everything before it.\<close>

lemma stream_done_appends:
  "conversationHistory (fst (continue (StreamDone fullResponse) s)) =
     conversationHistory s @ [(Assistant, fullResponse)]"
  by (simp add: continue_def finish_def emit_def)

text \<open>
  C1. The history is to hold at most 20 turns after every operation that appends turns.
  \<^verbatim>\<open>getLLMResponse\<close> trims it (above); \<^verbatim>\<open>streamLLMResponse\<close> with
  \<^verbatim>\<open>streamOpenAIResponse\<close> or \<^verbatim>\<open>streamGroqResponse\<close> appends the user turn and the
  assistant turn and never trims. A streaming run on a session whose history is \<open>h\<close> ends with
  all of \<open>h\<close> and two more turns: 22 turns when \<open>h\<close> has 20.
\<close>

theorem streaming_run_grows_history:
  "conversationHistory (ag (exec
      [ProcessContinuousAudio [0],
       SilenceTimerFires,
       Deliver 0 (STTReply (Inr [0x68, 0x69])),
       Deliver 0 (StreamOpened None),
       Deliver 0 (StreamNext (Chunk (Some [0x6F, 0x6B]))),
       Deliver 0 (StreamNext StreamEnd),
       Deliver 0 (TTSReply (Inr [7]))]
      \<lparr> ag = (newAgent (defaultConfig []))\<lparr> conversationHistory := h \<rparr>, runs = [] \<rparr>)) =
   h @ [(User, [0x68, 0x69]), (Assistant, [0x6F, 0x6B])]"
  by (simp add: run_defs)


section \<open>Interrupt (C2)\<close>

lemma interrupt_processing:
  "isProcessing s \<Longrightarrow>
   interrupt s = s\<lparr> isProcessing := False, audioBuffer := [], trace := trace s @ [Emit Interrupted] \<rparr>"
  by (simp add: interrupt_def emit_def)

lemma interrupt_idle: "\<not> isProcessing s \<Longrightarrow> interrupt s = s"
  by (simp add: interrupt_def)

text \<open>
  No step of a run reads \<^verbatim>\<open>isProcessing\<close> or the audio buffer: a suspended run does after
  an interrupt what it would have done without it, with the same observations, the same next
  await and the same history.
\<close>

lemma resume_frame:
  "since (s\<lparr> isProcessing := b, audioBuffer := ab, trace := t \<rparr>)
     (fst (resume c r (s\<lparr> isProcessing := b, audioBuffer := ab, trace := t \<rparr>))) =
     since s (fst (resume c r s)) \<and>
   snd (resume c r (s\<lparr> isProcessing := b, audioBuffer := ab, trace := t \<rparr>)) =
     snd (resume c r s) \<and>
   conversationHistory (fst (resume c r (s\<lparr> isProcessing := b, audioBuffer := ab, trace := t \<rparr>))) =
     conversationHistory (fst (resume c r s))"
  by (cases c; cases r)
     (auto simp: speechToText_end_def after_speechToText_def getLLMResponse_begin_def
        getLLMResponse_end_def streamLLMResponse_def streamLoop_def streamTTS_begin_def
        streamTTS_end_def continue_def finish_def emit_def request_def since_def Let_def
        split: sum.splits option.splits provider.splits kind.splits tts_cont.splits
          stream_item.splits)

lemma resume_after_interrupt:
  "since (interrupt s) (fst (resume c r (interrupt s))) = since s (fst (resume c r s)) \<and>
   snd (resume c r (interrupt s)) = snd (resume c r s) \<and>
   conversationHistory (fst (resume c r (interrupt s))) =
     conversationHistory (fst (resume c r s))"
proof (cases "isProcessing s")
  case True
  then have "interrupt s =
      s\<lparr> isProcessing := False, audioBuffer := [], trace := trace s @ [Emit Interrupted] \<rparr>"
    by (simp add: interrupt_def emit_def)
  then show ?thesis
    using resume_frame [where s = s and b = False and ab = "[]"
        and t = "trace s @ [Emit Interrupted]" and c = c and r = r]
    by simp
next
  case False
  then show ?thesis by (simp add: interrupt_def)
qed

text \<open>
  C2. After an interrupt during generation or synthesis no \<^verbatim>\<open>audio\<close> or \<^verbatim>\<open>complete\<close>
  event is to follow for the interrupted run. \<^verbatim>\<open>interrupt\<close> emits one
  \<^verbatim>\<open>interrupted\<close> event, clears the buffer and resets \<^verbatim>\<open>isProcessing\<close>, but
  no stage of a run reads that flag. In the run below the interrupt arrives while the chat
  completion is awaited; the \<^verbatim>\<open>response\<close>, \<^verbatim>\<open>audio\<close> and \<^verbatim>\<open>complete\<close> events
  are emitted after the \<^verbatim>\<open>interrupted\<close> event.
\<close>

theorem interrupted_run_still_emits:
  "trace (ag (exec
      [ProcessAudioFile [1],
       Deliver 0 (STTReply (Inr [0x68, 0x69])),
       Interrupt,
       Deliver 0 (LLMReply (Inr (Some [0x6F, 0x6B]))),
       Deliver 0 (TTSReply (Inr [7]))]
      (newSession (defaultConfig [])))) =
   [Call (STTCall OpenAI (Encoded [1])),
    Emit (Transcript [0x68, 0x69]),
    Call (ChatCall Groq False [(User, [0x68, 0x69])]),
    Emit Interrupted,
    Emit (Response [0x6F, 0x6B]),
    Call (TTSCall \<lparr> voice = Nova, speed = 1, input = [0x6F, 0x6B] \<rparr> [0x6F, 0x6B]),
    Emit (Audio [7] [0x6F, 0x6B]),
    Emit (Complete [0x68, 0x69] [0x6F, 0x6B])]"
  by (simp add: run_defs)


section \<open>Order of the audio events (C3)\<close>

lemma audioInOrder_append:
  "audioInOrder p (xs @ ys) = (audioInOrder p xs \<and> audioInOrder (pendingText p xs) ys)"
  by (induction p xs rule: audioInOrder.induct) simp_all

lemma pendingText_append:
  "pendingText p (xs @ ys) = pendingText (pendingText p xs) ys"
  by (induction p xs rule: pendingText.induct) simp_all

lemma noAudioAfterResponse_append:
  "noAudioAfterResponse seen (xs @ ys) =
     (noAudioAfterResponse seen xs \<and> noAudioAfterResponse (seen \<or> hasResponse xs) ys)"
  by (induction seen xs rule: noAudioAfterResponse.induct) simp_all

lemma hasResponse_append: "hasResponse (xs @ ys) = (hasResponse xs \<or> hasResponse ys)"
  by (induction xs rule: hasResponse.induct) simp_all

lemma no_response_no_audio_after:
  "\<not> hasResponse xs \<Longrightarrow> noAudioAfterResponse False xs"
  by (induction xs rule: hasResponse.induct) simp_all

lemma audioFollowsResponse_append:
  "audioFollowsResponse r (xs @ ys) =
     (audioFollowsResponse r xs \<and> audioFollowsResponse (lastResponse r xs) ys)"
  by (induction r xs rule: audioFollowsResponse.induct) simp_all

lemma lastResponse_append: "lastResponse r (xs @ ys) = lastResponse (lastResponse r xs) ys"
  by (induction r xs rule: lastResponse.induct) simp_all

lemma sentencesOfResponse_append:
  "sentencesOfResponse full buf (xs @ ys) =
     (sentencesOfResponse full buf xs \<and>
      sentencesOfResponse (streamedFull full xs) (streamedBuffer buf xs) ys)"
  by (induction full buf xs rule: sentencesOfResponse.induct) simp_all

lemma streamedFull_append: "streamedFull full (xs @ ys) = streamedFull (streamedFull full xs) ys"
  by (induction full xs rule: streamedFull.induct) simp_all

lemma streamedBuffer_append:
  "streamedBuffer buf (xs @ ys) = streamedBuffer (streamedBuffer buf xs) ys"
  by (induction buf xs rule: streamedBuffer.induct) simp_all

lemmas scan_append =
  audioInOrder_append pendingText_append noAudioAfterResponse_append hasResponse_append
  audioFollowsResponse_append lastResponse_append sentencesOfResponse_append
  streamedFull_append streamedBuffer_append

lemmas step_defs =
  speechToText_end_def after_speechToText_def getLLMResponse_begin_def
  getLLMResponse_end_def streamLLMResponse_def streamLoop_def streamTTS_begin_def
  streamTTS_end_def continue_def finish_def emit_def request_def Let_def

text \<open>Every step of a run keeps the three invariants.\<close>

lemma orderInv_resume: "orderInv n (s, Some c) \<Longrightarrow> orderInv n (resume c r s)"
  by (cases c; cases r)
     (auto simp: orderInv_def step_defs scan_append
        split: sum.splits option.splits provider.splits kind.splits tts_cont.splits
          stream_item.splits if_splits)

lemma plainInv_resume: "plainInv n (s, Some c) \<Longrightarrow> plainInv n (resume c r s)"
  by (cases c; cases r)
     (auto simp: plainInv_def plainPc_def step_defs scan_append
        split: sum.splits option.splits provider.splits kind.splits tts_cont.splits
          stream_item.splits if_splits)

text \<open>
  A buffer in which the loop finds the end of a sentence holds a terminator, so it is not
  blank and \<^verbatim>\<open>streamTTS\<close> does make a request for it.
\<close>

lemma trim_not_blank:
  assumes "c \<in> set s" and "\<not> isWhiteSpace c"
  shows "trim s \<noteq> []"
proof -
  from assms have "dropWhile isWhiteSpace s \<noteq> []"
    by (auto simp: dropWhile_eq_Nil_conv)
  then have "\<not> isWhiteSpace (hd (dropWhile isWhiteSpace s))"
    by (rule hd_dropWhile)
  moreover have "hd (dropWhile isWhiteSpace s) \<in> set (rev (dropWhile isWhiteSpace s))"
    using \<open>dropWhile isWhiteSpace s \<noteq> []\<close> by simp
  ultimately have "dropWhile isWhiteSpace (rev (dropWhile isWhiteSpace s)) \<noteq> []"
    by (auto simp: dropWhile_eq_Nil_conv)
  then show ?thesis by (simp add: trim_def)
qed

lemma hasSentenceEnd_terminator:
  "hasSentenceEnd s \<Longrightarrow> \<exists>c \<in> set s. c \<in> {0x2E, 0x21, 0x3F}"
  by (induction s rule: hasSentenceEnd.induct) auto

lemma hasSentenceEnd_not_blank: "hasSentenceEnd s \<Longrightarrow> trim s \<noteq> []"
proof -
  assume "hasSentenceEnd s"
  then obtain c where c: "c \<in> set s" and t: "c \<in> {0x2E, 0x21, 0x3F}"
    using hasSentenceEnd_terminator by blast
  from t have "\<not> isWhiteSpace c" by (auto simp: isWhiteSpace_def)
  with c show ?thesis by (rule trim_not_blank)
qed

lemma sentence_is_requested:
  "hasSentenceEnd t \<Longrightarrow> streamTTS_request cfg t = Some (ttsRequest cfg t)"
  by (simp add: streamTTS_request_def hasSentenceEnd_not_blank)

lemma request_None_blank: "streamTTS_request cfg t = None \<Longrightarrow> trim t = []"
  by (simp add: streamTTS_request_def split: if_splits)

lemma streamInv_resume: "streamInv n (s, Some c) \<Longrightarrow> streamInv n (resume c r s)"
  by (cases c; cases r)
     (auto simp: streamInv_def streamPc_def streamState_def step_defs scan_append
        sentence_is_requested no_response_no_audio_after trim_Nil
        dest: request_None_blank
        split: sum.splits option.splits provider.splits kind.splits tts_cont.splits
          stream_item.splits if_splits)

lemma config_resume: "config (fst (resume c r s)) = config s"
  by (cases c; cases r)
     (auto simp: step_defs
        split: sum.splits option.splits provider.splits kind.splits tts_cont.splits
          stream_item.splits if_splits)

lemma orderInv_drive: "orderInv n x \<Longrightarrow> orderInv n (drive rs x)"
  by (induction rs x rule: drive.induct) (simp_all add: orderInv_resume)

lemma plainInv_drive: "plainInv n x \<Longrightarrow> plainInv n (drive rs x)"
  by (induction rs x rule: drive.induct) (simp_all add: plainInv_resume)

lemma streamInv_drive: "streamInv n x \<Longrightarrow> streamInv n (drive rs x)"
  by (induction rs x rule: drive.induct) (simp_all add: streamInv_resume)

lemma orderInv_file: "orderInv (length (trace s)) (processAudioFile audioData s)"
  by (simp add: orderInv_def processAudioFile_def speechToText_begin_def request_def)

lemma orderInv_buffered: "orderInv (length (trace s)) (processBufferedAudio s)"
  by (simp add: orderInv_def processBufferedAudio_def speechToText_begin_def request_def Let_def)

lemma plainInv_file: "plainInv (length (trace s)) (processAudioFile audioData s)"
  by (simp add: plainInv_def plainPc_def processAudioFile_def speechToText_begin_def request_def)

lemma plainInv_buffered:
  "\<not> streamResponse (config s) \<Longrightarrow> plainInv (length (trace s)) (processBufferedAudio s)"
  by (simp add: plainInv_def plainPc_def processBufferedAudio_def speechToText_begin_def
      request_def Let_def)

lemma streamInv_buffered:
  "streamResponse (config s) \<Longrightarrow> streamInv (length (trace s)) (processBufferedAudio s)"
  by (simp add: streamInv_def streamPc_def streamState_def processBufferedAudio_def
      speechToText_begin_def request_def Let_def)

lemma streamInv_final:
  "streamInv n x \<Longrightarrow>
   noAudioAfterResponse False (drop n (trace (fst x))) \<and>
   sentencesOfResponse [] [] (drop n (trace (fst x)))"
  by (cases "snd x") (simp_all add: streamInv_def no_response_no_audio_after)

text \<open>
  C3, as the code has it. In every run, of either entry point and whatever the backends
  reply, the \<^verbatim>\<open>audio\<close> events come in the order in which the texts were sent to synthesis:
  each carries the text of the latest request, and no request yields two. In a run that does
  not stream (\<^verbatim>\<open>processAudioFile\<close>, and \<^verbatim>\<open>processBufferedAudio\<close> with
  \<^verbatim>\<open>streamResponse\<close> off) every \<^verbatim>\<open>audio\<close> event comes after the \<^verbatim>\<open>response\<close> event
  that carries its text. In a streaming run every synthesis request is made for the text
  streamed since the previous request, the \<^verbatim>\<open>response\<close> event carries all the text
  streamed, and no \<^verbatim>\<open>audio\<close> event follows it.
\<close>

theorem audio_order_of_runs:
  "audioInOrder None (since s (fst (drive rs (processAudioFile audioData s)))) \<and>
   audioFollowsResponse None (since s (fst (drive rs (processAudioFile audioData s)))) \<and>
   audioInOrder None (since s (fst (drive rs (processBufferedAudio s)))) \<and>
   (if streamResponse (config s)
    then noAudioAfterResponse False (since s (fst (drive rs (processBufferedAudio s)))) \<and>
         sentencesOfResponse [] [] (since s (fst (drive rs (processBufferedAudio s))))
    else audioFollowsResponse None (since s (fst (drive rs (processBufferedAudio s)))))"
proof -
  have a: "audioInOrder None (since s (fst (drive rs (processAudioFile audioData s))))"
    using orderInv_drive [where rs = rs, OF orderInv_file [where s = s and audioData = audioData]]
    by (simp add: orderInv_def since_def)
  have b: "audioFollowsResponse None (since s (fst (drive rs (processAudioFile audioData s))))"
    using plainInv_drive [where rs = rs, OF plainInv_file [where s = s and audioData = audioData]]
    by (simp add: plainInv_def since_def)
  have c: "audioInOrder None (since s (fst (drive rs (processBufferedAudio s))))"
    using orderInv_drive [where rs = rs, OF orderInv_buffered [where s = s]]
    by (simp add: orderInv_def since_def)
  have d: "streamResponse (config s) \<Longrightarrow>
      noAudioAfterResponse False (since s (fst (drive rs (processBufferedAudio s)))) \<and>
      sentencesOfResponse [] [] (since s (fst (drive rs (processBufferedAudio s))))"
    using streamInv_final [OF streamInv_drive [where rs = rs, OF streamInv_buffered [where s = s]]]
    by (simp add: since_def)
  have e: "\<not> streamResponse (config s) \<Longrightarrow>
      audioFollowsResponse None (since s (fst (drive rs (processBufferedAudio s))))"
    using plainInv_drive [where rs = rs, OF plainInv_buffered [where s = s]]
    by (simp add: plainInv_def since_def)
  show ?thesis
    using a b c d e by simp
qed

theorem audio_order_of_runs_witness:
  "streamResponse (config ((newAgent (defaultConfig []))\<lparr> audioBuffer := [[0]] \<rparr>)) \<and>
   sentencesOfResponse [] []
     (since ((newAgent (defaultConfig []))\<lparr> audioBuffer := [[0]] \<rparr>)
        (fst (drive
           [STTReply (Inr [0x68, 0x69]), StreamOpened None,
            StreamNext (Chunk (Some [0x48, 0x69, 0x2E, 0x20])), TTSReply (Inr [7]),
            StreamNext (Chunk (Some [0x4F, 0x6B])), StreamNext StreamEnd, TTSReply (Inr [8])]
           (processBufferedAudio ((newAgent (defaultConfig []))\<lparr> audioBuffer := [[0]] \<rparr>)))))"
  using audio_order_of_runs [of "(newAgent (defaultConfig []))\<lparr> audioBuffer := [[0]] \<rparr>"
      "[STTReply (Inr [0x68, 0x69]), StreamOpened None,
        StreamNext (Chunk (Some [0x48, 0x69, 0x2E, 0x20])), TTSReply (Inr [7]),
        StreamNext (Chunk (Some [0x4F, 0x6B])), StreamNext StreamEnd, TTSReply (Inr [8])]"]
  by (simp add: newAgent_def defaultConfig_def)

text \<open>
  A stream of two sentences: both \<^verbatim>\<open>audio\<close> events are emitted before the only
  \<^verbatim>\<open>response\<close> event.
\<close>

theorem streaming_audio_precedes_response:
  "trace (ag (exec
      [ProcessContinuousAudio [0],
       SilenceTimerFires,
       Deliver 0 (STTReply (Inr [0x68, 0x69])),
       Deliver 0 (StreamOpened None),
       Deliver 0 (StreamNext (Chunk (Some [0x48, 0x69, 0x2E, 0x20]))),
       Deliver 0 (TTSReply (Inr [7])),
       Deliver 0 (StreamNext (Chunk (Some [0x4F, 0x6B]))),
       Deliver 0 (StreamNext StreamEnd),
       Deliver 0 (TTSReply (Inr [8]))]
      (newSession (defaultConfig [])))) =
   [Call (STTCall OpenAI (Wav [0])),
    Emit (Transcript [0x68, 0x69]),
    Call (ChatCall Groq True [(User, [0x68, 0x69])]),
    Emit (Partial [0x48, 0x69, 0x2E, 0x20]),
    Call (TTSCall \<lparr> voice = Nova, speed = 1, input = [0x48, 0x69, 0x2E, 0x20] \<rparr>
            [0x48, 0x69, 0x2E, 0x20]),
    Emit (Audio [7] [0x48, 0x69, 0x2E, 0x20]),
    Emit (Partial [0x4F, 0x6B]),
    Call (TTSCall \<lparr> voice = Nova, speed = 1, input = [0x4F, 0x6B] \<rparr> [0x4F, 0x6B]),
    Emit (Audio [8] [0x4F, 0x6B]),
    Emit (Response [0x48, 0x69, 0x2E, 0x20, 0x4F, 0x6B])]
   \<and> \<not> responseBeforeAudio False (trace (ag (exec
      [ProcessContinuousAudio [0],
       SilenceTimerFires,
       Deliver 0 (STTReply (Inr [0x68, 0x69])),
       Deliver 0 (StreamOpened None),
       Deliver 0 (StreamNext (Chunk (Some [0x48, 0x69, 0x2E, 0x20]))),
       Deliver 0 (TTSReply (Inr [7])),
       Deliver 0 (StreamNext (Chunk (Some [0x4F, 0x6B]))),
       Deliver 0 (StreamNext StreamEnd),
       Deliver 0 (TTSReply (Inr [8]))]
      (newSession (defaultConfig [])))))"
  by (simp add: run_defs)


section \<open>Voice and speed of a synthesis request (C4)\<close>

text \<open>
  C4, as the code has it. Whenever \<^verbatim>\<open>streamTTS\<close> issues a request, the voice
  \<^verbatim>\<open>nova\<close> and the speed 0.85 replace the configured voice and speed if the text contains
  at least one Arabic-script code unit, and the configured voice and speed are used unchanged
  otherwise. The share of Arabic characters plays no part.
\<close>

theorem streamTTS_override_follows_hasArabic:
  assumes "trim text \<noteq> []"
  shows "streamTTS_request cfg text =
     Some \<lparr> voice = (if hasArabic text then Nova else ttsVoice cfg),
            speed = (if hasArabic text then 85 / 100 else ttsSpeed cfg),
            input = processedText text \<rparr>"
  using assms by (simp add: streamTTS_request_def ttsRequest_def)

theorem streamTTS_override_follows_hasArabic_witness:
  "trim [0x68, 0x65, 0x6C, 0x6C, 0x6F] \<noteq> [] \<and>
   streamTTS_request ((defaultConfig [])\<lparr> ttsVoice := Alloy \<rparr>) [0x68, 0x65, 0x6C, 0x6C, 0x6F] =
     Some \<lparr> voice = Alloy, speed = 1, input = [0x68, 0x65, 0x6C, 0x6C, 0x6F] \<rparr>"
proof -
  have t: "trim [0x68, 0x65, 0x6C, 0x6C, 0x6F] \<noteq> []"
    by (simp add: trim_def isWhiteSpace_def)
  have h: "\<not> hasArabic [0x68, 0x65, 0x6C, 0x6C, 0x6F]"
    by (simp add: hasArabic_def isArabic_def)
  show ?thesis
    using t h
      streamTTS_override_follows_hasArabic [OF t, of "(defaultConfig [])\<lparr> ttsVoice := Alloy \<rparr>"]
    by (simp add: processedText_def defaultConfig_def)
qed

text \<open>
  One Arabic letter among ten code units is a share of 10 percent, and the request is made
  with \<^verbatim>\<open>nova\<close> at 0.85 although \<^verbatim>\<open>alloy\<close> at 1.0 is configured.
\<close>

lemma one_arabic_letter_in_ten:
  "trim [0x68, 0x65, 0x6C, 0x6C, 0x6F, 0x20, 0x77, 0x6F, 0x72, 0x645] =
     [0x68, 0x65, 0x6C, 0x6C, 0x6F, 0x20, 0x77, 0x6F, 0x72, 0x645]"
  "hasArabic [0x68, 0x65, 0x6C, 0x6C, 0x6F, 0x20, 0x77, 0x6F, 0x72, 0x645]"
  by (simp_all add: trim_def isWhiteSpace_def hasArabic_def isArabic_def)

theorem streamTTS_override_below_30_percent:
  "\<not> arabicRatioExceeds30 [0x68, 0x65, 0x6C, 0x6C, 0x6F, 0x20, 0x77, 0x6F, 0x72, 0x645] \<and>
   map_option voice (streamTTS_request ((defaultConfig [])\<lparr> ttsVoice := Alloy \<rparr>)
      [0x68, 0x65, 0x6C, 0x6C, 0x6F, 0x20, 0x77, 0x6F, 0x72, 0x645]) = Some Nova \<and>
   map_option speed (streamTTS_request ((defaultConfig [])\<lparr> ttsVoice := Alloy \<rparr>)
      [0x68, 0x65, 0x6C, 0x6C, 0x6F, 0x20, 0x77, 0x6F, 0x72, 0x645]) = Some (85 / 100)"
  by (simp add: arabicRatioExceeds30_def isArabic_def streamTTS_request_def ttsRequest_def
      one_arabic_letter_in_ten)


section \<open>Silent input (C5)\<close>

lemma exec_append: "exec (as @ bs) \<sigma> = exec bs (exec as \<sigma>)"
  by (simp add: exec_def)

lemma exec_chunks:
  "exec (map ProcessContinuousAudio chunks) \<sigma> =
     \<sigma>\<lparr> ag := fold processContinuousAudio chunks (ag \<sigma>) \<rparr>"
  by (induction chunks arbitrary: \<sigma>) (simp_all add: exec_def)

lemma silent_chunks_buffered:
  assumes "list_all silentChunk chunks"
  shows "fold processContinuousAudio chunks s =
     s\<lparr> audioBuffer := audioBuffer s @ chunks,
        silenceTimer := (if chunks \<noteq> [] \<and> silenceTimer s = NoTimer then Pending
                         else silenceTimer s) \<rparr>"
  using assms
proof (induction chunks arbitrary: s)
  case Nil
  then show ?case by simp
next
  case (Cons c cs)
  then have sc: "silentChunk c" and cs: "list_all silentChunk cs"
    by simp_all
  from sc have c: "\<not> calculateEnergy c > 0.01"
    by (simp add: silentChunk_def)
  have one: "processContinuousAudio c s =
     s\<lparr> audioBuffer := audioBuffer s @ [c],
        silenceTimer := (if silenceTimer s = NoTimer then Pending else silenceTimer s) \<rparr>"
    using c by (simp add: processContinuousAudio_def Let_def)
  show ?case
    by (simp add: Cons.IH [OF cs] one)
qed

text \<open>
  A chunk of zero samples is silent; its energy is computed without rounding in floating point
  as well.
\<close>

lemma zero_chunk_silent: "silentChunk (replicate n 0)"
  by (simp add: silentChunk_def calculateEnergy_def sum_list_replicate)

text \<open>
  C5, as the code has it. The agent has no notion of confirmed speech. Of silent chunks fed
  to a new agent the first sets the silence timer. When the timer fires, after one second and
  wherever in the input that falls, the chunks buffered until then are merged and sent to
  transcription, the buffer is emptied and a run is active. Silent chunks that arrive later
  are buffered and set no further timer, so nothing more is sent. If the transcript comes
  back empty or blank, whenever it comes, the run ends without any event, with the history
  untouched and \<^verbatim>\<open>isProcessing\<close> reset. A chunk is silent when its energy, computed over
  the reals, is not above 0.01.
\<close>

theorem silent_input_is_transcribed:
  assumes "chunks \<noteq> []" and "list_all silentChunk chunks"
    and "list_all silentChunk later" and "list_all silentChunk latest" and "trim text = []"
  shows "exec (map ProcessContinuousAudio chunks) (newSession cfg) =
       \<lparr> ag = (newAgent cfg)\<lparr> audioBuffer := chunks, silenceTimer := Pending \<rparr>, runs = [] \<rparr>
     \<and> exec (map ProcessContinuousAudio chunks @ [SilenceTimerFires] @
              map ProcessContinuousAudio later) (newSession cfg) =
       \<lparr> ag = (newAgent cfg)\<lparr> isProcessing := True, audioBuffer := later,
               silenceTimer := Fired,
               trace := [Call (STTCall (if sttProvider cfg = Groq then Groq else OpenAI)
                                 (Wav (concat chunks)))] \<rparr>,
         runs = [AwaitSTT Buffered (if sttProvider cfg = Groq then Groq else OpenAI)
                   (Wav (concat chunks))] \<rparr>
     \<and> exec (map ProcessContinuousAudio chunks @ [SilenceTimerFires] @
              map ProcessContinuousAudio later @ [Deliver 0 (STTReply (Inr text))] @
              map ProcessContinuousAudio latest) (newSession cfg) =
       \<lparr> ag = (newAgent cfg)\<lparr> audioBuffer := later @ latest, silenceTimer := Fired,
               trace := [Call (STTCall (if sttProvider cfg = Groq then Groq else OpenAI)
                                 (Wav (concat chunks)))] \<rparr>,
         runs = [] \<rparr>"
proof -
  let ?p = "if sttProvider cfg = Groq then Groq else OpenAI"
  let ?c = "Call (STTCall ?p (Wav (concat chunks)))"
  have one: "exec (map ProcessContinuousAudio chunks) (newSession cfg) =
       \<lparr> ag = (newAgent cfg)\<lparr> audioBuffer := chunks, silenceTimer := Pending \<rparr>, runs = [] \<rparr>"
    using assms(1,2)
    by (simp add: exec_chunks silent_chunks_buffered newSession_def newAgent_def)
  have fire: "exec [SilenceTimerFires]
        \<lparr> ag = (newAgent cfg)\<lparr> audioBuffer := chunks, silenceTimer := Pending \<rparr>, runs = [] \<rparr> =
       \<lparr> ag = (newAgent cfg)\<lparr> isProcessing := True, audioBuffer := [], silenceTimer := Fired,
               trace := [?c] \<rparr>,
         runs = [AwaitSTT Buffered ?p (Wav (concat chunks))] \<rparr>"
    using assms(1)
    by (simp add: exec_def spawn_def silenceTimerFires_def processBufferedAudio_def
        mergeAudioBuffers_def speechToText_begin_def request_def newAgent_def Let_def)
  have two: "exec (map ProcessContinuousAudio chunks @ [SilenceTimerFires] @
              map ProcessContinuousAudio later) (newSession cfg) =
       \<lparr> ag = (newAgent cfg)\<lparr> isProcessing := True, audioBuffer := later,
               silenceTimer := Fired, trace := [?c] \<rparr>,
         runs = [AwaitSTT Buffered ?p (Wav (concat chunks))] \<rparr>"
  proof -
    have "exec (map ProcessContinuousAudio chunks @ [SilenceTimerFires] @
              map ProcessContinuousAudio later) (newSession cfg) =
          exec (map ProcessContinuousAudio later)
            (exec [SilenceTimerFires]
               (exec (map ProcessContinuousAudio chunks) (newSession cfg)))"
      by (simp only: exec_append)
    also have "\<dots> = \<lparr> ag = (newAgent cfg)\<lparr> isProcessing := True, audioBuffer := later,
               silenceTimer := Fired, trace := [?c] \<rparr>,
         runs = [AwaitSTT Buffered ?p (Wav (concat chunks))] \<rparr>"
      using assms(3)
      by (simp only: one fire)
         (simp add: exec_chunks silent_chunks_buffered newAgent_def)
    finally show ?thesis .
  qed
  have reply: "exec [Deliver 0 (STTReply (Inr text))]
        \<lparr> ag = (newAgent cfg)\<lparr> isProcessing := True, audioBuffer := later,
               silenceTimer := Fired, trace := [?c] \<rparr>,
          runs = [AwaitSTT Buffered ?p (Wav (concat chunks))] \<rparr> =
       \<lparr> ag = (newAgent cfg)\<lparr> audioBuffer := later, silenceTimer := Fired, trace := [?c] \<rparr>,
         runs = [] \<rparr>"
    using assms(5)
    by (simp add: exec_def deliver_def blank_transcript_end newAgent_def)
  have three: "exec (map ProcessContinuousAudio chunks @ [SilenceTimerFires] @
              map ProcessContinuousAudio later @ [Deliver 0 (STTReply (Inr text))] @
              map ProcessContinuousAudio latest) (newSession cfg) =
       \<lparr> ag = (newAgent cfg)\<lparr> audioBuffer := later @ latest, silenceTimer := Fired,
               trace := [?c] \<rparr>,
         runs = [] \<rparr>"
  proof -
    have "exec (map ProcessContinuousAudio chunks @ [SilenceTimerFires] @
              map ProcessContinuousAudio later @ [Deliver 0 (STTReply (Inr text))] @
              map ProcessContinuousAudio latest) (newSession cfg) =
          exec (map ProcessContinuousAudio latest)
            (exec [Deliver 0 (STTReply (Inr text))]
               (exec (map ProcessContinuousAudio chunks @ [SilenceTimerFires] @
                  map ProcessContinuousAudio later) (newSession cfg)))"
      by (simp only: exec_append append_assoc)
    also have "\<dots> = \<lparr> ag = (newAgent cfg)\<lparr> audioBuffer := later @ latest,
                 silenceTimer := Fired, trace := [?c] \<rparr>, runs = [] \<rparr>"
      using assms(4)
      by (simp only: two reply)
         (simp add: exec_chunks silent_chunks_buffered newAgent_def)
    finally show ?thesis .
  qed
  show ?thesis
    using one two three by simp
qed

theorem silent_input_is_transcribed_witness:
  "[[0, 0], [0, 0 :: real]] \<noteq> [] \<and> list_all silentChunk [[0, 0], [0, 0]] \<and>
   list_all silentChunk [[0]] \<and> list_all silentChunk [[0, 0, 0]] \<and> trim [] = [] \<and>
   exec (map ProcessContinuousAudio [[0, 0], [0, 0]] @ [SilenceTimerFires] @
         map ProcessContinuousAudio [[0]] @ [Deliver 0 (STTReply (Inr []))] @
         map ProcessContinuousAudio [[0, 0, 0]])
       (newSession (defaultConfig [])) =
     \<lparr> ag = (newAgent (defaultConfig []))\<lparr> audioBuffer := [[0], [0, 0, 0]],
             silenceTimer := Fired,
             trace := [Call (STTCall OpenAI (Wav [0, 0, 0, 0]))] \<rparr>,
       runs = [] \<rparr>"
proof -
  have a: "[[0, 0], [0, 0 :: real]] \<noteq> []" by simp
  have b: "list_all silentChunk [[0, 0], [0, 0]]"
    by (simp add: silentChunk_def calculateEnergy_def)
  have c: "list_all silentChunk [[0]]"
    by (simp add: silentChunk_def calculateEnergy_def)
  have d: "list_all silentChunk [[0, 0, 0]]"
    by (simp add: silentChunk_def calculateEnergy_def)
  have e: "trim [] = []" by (simp add: trim_def)
  show ?thesis
    using a b c d e silent_input_is_transcribed [OF a b c d e, of "defaultConfig []"]
    by (simp add: defaultConfig_def)
qed

text \<open>One silent chunk and the timeout: a transcription request and an active run.\<close>

theorem silent_chunk_starts_run:
  "silentChunk [0, 0] \<and>
   exec [ProcessContinuousAudio [0, 0], SilenceTimerFires] (newSession (defaultConfig [])) =
     \<lparr> ag = (newAgent (defaultConfig []))\<lparr> isProcessing := True, silenceTimer := Fired,
             trace := [Call (STTCall OpenAI (Wav [0, 0]))] \<rparr>,
       runs = [AwaitSTT Buffered OpenAI (Wav [0, 0])] \<rparr>"
  by (simp add: run_defs silentChunk_def)


section \<open>Empty transcript (C6)\<close>

text \<open>
  C6, as the code has it. When the backend of a run answers, without failing, with a text that
  is empty or white space only, the run ends with \<^verbatim>\<open>isProcessing\<close> reset, the history as
  it was, and no transcript, response, audio or complete event. A run of
  \<^verbatim>\<open>processAudioFile\<close> emits exactly one error event, the no-speech notification; a run
  of \<^verbatim>\<open>processBufferedAudio\<close> emits nothing. This holds for the reply step in whatever
  state it finds the agent, and for the whole run from either entry point.
\<close>

theorem blank_transcript_ends_run:
  assumes "trim text = []" and "\<not> isProcessing s"
  shows "resume (AwaitSTT k p a) (STTReply (Inr text)) s' =
       (s'\<lparr> isProcessing := False,
            trace := trace s' @
              (case k of File \<Rightarrow> [Emit (Error NoSpeechDetected)] | Buffered \<Rightarrow> []) \<rparr>,
        None)
     \<and> drive [STTReply (Inr text)] (processAudioFile audioData s) =
       (s\<lparr> isProcessing := False,
           trace := trace s @
             [Call (STTCall (if sttProvider (config s) = Groq then Groq else OpenAI)
                      (Encoded audioData)),
              Emit (Error NoSpeechDetected)] \<rparr>,
        None)
     \<and> drive [STTReply (Inr text)] (processBufferedAudio s) =
       (if audioBuffer s = [] then (s, None)
        else (s\<lparr> isProcessing := False, audioBuffer := [],
                 trace := trace s @
                   [Call (STTCall (if sttProvider (config s) = Groq then Groq else OpenAI)
                            (Wav (concat (audioBuffer s))))] \<rparr>,
              None))"
proof (intro conjI)
  show "resume (AwaitSTT k p a) (STTReply (Inr text)) s' =
       (s'\<lparr> isProcessing := False,
            trace := trace s' @
              (case k of File \<Rightarrow> [Emit (Error NoSpeechDetected)] | Buffered \<Rightarrow> []) \<rparr>,
        None)"
    using assms(1) by (simp add: blank_transcript_end)
next
  show "drive [STTReply (Inr text)] (processAudioFile audioData s) =
       (s\<lparr> isProcessing := False,
           trace := trace s @
             [Call (STTCall (if sttProvider (config s) = Groq then Groq else OpenAI)
                      (Encoded audioData)),
              Emit (Error NoSpeechDetected)] \<rparr>,
        None)"
    using assms
    by (simp add: processAudioFile_def speechToText_begin_def request_def
        blank_transcript_end)
next
  show "drive [STTReply (Inr text)] (processBufferedAudio s) =
       (if audioBuffer s = [] then (s, None)
        else (s\<lparr> isProcessing := False, audioBuffer := [],
                 trace := trace s @
                   [Call (STTCall (if sttProvider (config s) = Groq then Groq else OpenAI)
                            (Wav (concat (audioBuffer s))))] \<rparr>,
              None))"
    using assms
    by (simp add: processBufferedAudio_def mergeAudioBuffers_def speechToText_begin_def
        request_def blank_transcript_end Let_def)
qed

theorem blank_transcript_ends_run_witness:
  "trim [0x20, 0x20] = [] \<and> \<not> isProcessing (newAgent (defaultConfig [])) \<and>
   drive [STTReply (Inr [0x20, 0x20])] (processAudioFile [1] (newAgent (defaultConfig []))) =
     ((newAgent (defaultConfig []))\<lparr>
        trace := [Call (STTCall OpenAI (Encoded [1])), Emit (Error NoSpeechDetected)] \<rparr>, None)"
proof -
  have t: "trim [0x20, 0x20] = []"
    by (simp add: trim_def isWhiteSpace_def)
  have i: "\<not> isProcessing (newAgent (defaultConfig []))"
    by (simp add: newAgent_def)
  show ?thesis
    using t i blank_transcript_ends_run [OF t i, of File OpenAI "Encoded [1]"
        "newAgent (defaultConfig [])" "[1]"]
    by (simp add: newAgent_def defaultConfig_def)
qed

text \<open>
  A loud chunk, a silent chunk, the timeout and a blank transcript: the run of
  \<^verbatim>\<open>processBufferedAudio\<close> ends and the trace holds the request only, no notification.
\<close>

theorem buffered_blank_transcript_is_silent:
  "trim [0x20] = [] \<and>
   exec [ProcessContinuousAudio [1], ProcessContinuousAudio [0], SilenceTimerFires,
         Deliver 0 (STTReply (Inr [0x20]))]
      (newSession (defaultConfig [])) =
     \<lparr> ag = (newAgent (defaultConfig []))\<lparr> silenceTimer := Fired,
             trace := [Call (STTCall OpenAI (Wav [1, 0]))] \<rparr>,
       runs = [] \<rparr>"
  by (simp add: run_defs)


section \<open>Transcription fallback (C7)\<close>




















section \<open>Text handed to the synthesis backend (C8)\<close>

lemma endsWithPunctuation_wrapped: "\<not> endsWithPunctuation (xs @ [0x202C])"
  by (simp add: endsWithPunctuation_def isTerminalPunctuation_def)

text \<open>
  The test for final punctuation is made on the wrapped string, whose last code unit is
  always U+202C: a full stop is appended to every Arabic text.
\<close>

lemma processedText_arabic:
  assumes "hasArabic text"
  shows "processedText text =
     [0x202B] @ normalizeSpaces (removeDirectionalMarks (trim text)) @ [0x202C, 0x2E]"
proof -
  let ?n = "normalizeSpaces (removeDirectionalMarks (trim text))"
  have "\<not> endsWithPunctuation (([0x202B] @ ?n) @ [0x202C])"
    by (rule endsWithPunctuation_wrapped)
  then show ?thesis
    using assms by (simp add: processedText_def Let_def)
qed

lemma endsWithArabicPunctuation_wrapped: "\<not> endsWithArabicPunctuation (xs @ [0x202C])"
  by (simp add: endsWithArabicPunctuation_def)

lemma processArabicText_arabic:
  "processArabicText text Arabic =
     [0x202B] @ normalizeSpaces (removeDirectionalMarks (trim text)) @ [0x202C, 0x2E]"
proof -
  let ?n = "normalizeSpaces (removeDirectionalMarks (trim text))"
  have "\<not> endsWithArabicPunctuation (([0x202B] @ ?n) @ [0x202C])"
    by (rule endsWithArabicPunctuation_wrapped)
  then show ?thesis
    by (simp add: processArabicText_def Let_def)
qed

text \<open>
  C8. A full stop is to be appended only if the text does not already end in terminal
  punctuation. The Arabic word below ends in a full stop, and the input of the request is the
  wrapped text followed by a second full stop, after the closing mark U+202C.
\<close>

theorem streamTTS_appends_stop_after_punctuation:
  "endsWithPunctuation [0x645, 0x631, 0x62D, 0x628, 0x627, 0x2E] \<and>
   map_option input (streamTTS_request cfg [0x645, 0x631, 0x62D, 0x628, 0x627, 0x2E]) =
     Some [0x202B, 0x645, 0x631, 0x62D, 0x628, 0x627, 0x2E, 0x202C, 0x2E]"
  by (simp add: streamTTS_request_def ttsRequest_def processedText_def endsWithPunctuation_def
      isTerminalPunctuation_def trim_def isWhiteSpace_def hasArabic_def isArabic_def
      removeDirectionalMarks_def isDirectionalMark_def)


section \<open>Single flight (C9)\<close>

text \<open>
  C9. No two runs of a session are to be active together. The guards of both entry points hold
  while \<^verbatim>\<open>isProcessing\<close> is set, but \<^verbatim>\<open>interrupt\<close> resets the flag and leaves the
  run suspended: the next \<^verbatim>\<open>processAudioFile\<close> starts a second run beside it.
\<close>

theorem second_run_after_interrupt:
  "runs (exec [ProcessAudioFile [1], Interrupt, ProcessAudioFile [2]]
          (newSession (defaultConfig []))) =
   [AwaitSTT File OpenAI (Encoded [1]), AwaitSTT File OpenAI (Encoded [2])]"
  by (simp add: run_defs)

text \<open>
  Without \<^verbatim>\<open>interrupt\<close> the guards do keep a session to one run: a call made while
  \<^verbatim>\<open>isProcessing\<close> is set changes nothing, and no sequence of other actions leads to two
  suspended runs.
\<close>

lemma continue_keeps_flag:
  "snd (continue k s) = Some c \<Longrightarrow> isProcessing (fst (continue k s)) = isProcessing s"
  by (cases k) (auto simp: continue_def finish_def)

lemma streamTTS_begin_keeps_flag:
  "snd (streamTTS_begin k text s) = Some c \<Longrightarrow>
   isProcessing (fst (streamTTS_begin k text s)) = isProcessing s"
  by (cases "streamTTS_request (config s) text")
     (auto simp: streamTTS_begin_def request_def dest: continue_keeps_flag)

lemma after_speechToText_keeps_flag:
  "snd (after_speechToText k t s) = Some c \<Longrightarrow>
   isProcessing (fst (after_speechToText k t s)) = isProcessing s"
  by (cases k)
     (auto simp: after_speechToText_def finish_def emit_def request_def
        getLLMResponse_begin_def streamLLMResponse_def Let_def split: option.splits if_splits)

lemma resume_keeps_flag:
  "snd (resume c r s) = Some c' \<Longrightarrow> isProcessing (fst (resume c r s)) = isProcessing s"
proof (cases c)
  case (AwaitSTT k p a)
  then show "snd (resume c r s) = Some c' \<Longrightarrow> ?thesis"
    by (cases r)
       (auto simp: speechToText_end_def Let_def request_def emit_def
          dest!: after_speechToText_keeps_flag split: sum.splits provider.splits if_splits)
next
  case (AwaitLLM k t)
  then show "snd (resume c r s) = Some c' \<Longrightarrow> ?thesis"
    by (cases r)
       (auto simp: getLLMResponse_end_def Let_def finish_def emit_def
          dest!: streamTTS_begin_keeps_flag split: sum.splits)
next
  case (AwaitStream p)
  then show "snd (resume c r s) = Some c' \<Longrightarrow> ?thesis"
    by (cases r) (auto simp: finish_def split: option.splits)
next
  case (AwaitChunk p full buf)
  then show "snd (resume c r s) = Some c' \<Longrightarrow> ?thesis"
    by (cases r)
       (auto simp: streamLoop_def Let_def finish_def emit_def
          dest!: streamTTS_begin_keeps_flag continue_keeps_flag
          split: stream_item.splits if_splits)
next
  case (AwaitTTS k t)
  then show "snd (resume c r s) = Some c' \<Longrightarrow> ?thesis"
    by (cases r)
       (auto simp: streamTTS_end_def emit_def dest!: continue_keeps_flag split: sum.splits)
qed

lemma guards_hold:
  "isProcessing s \<Longrightarrow> processAudioFile audioData s = (s, None) \<and> processBufferedAudio s = (s, None)"
  by (simp add: processAudioFile_def processBufferedAudio_def)

lemma step_singleFlight:
  assumes "a \<noteq> Interrupt" and "singleFlight \<sigma>"
  shows "singleFlight (step a \<sigma>)"
proof (cases a)
  case (ProcessAudioFile audioData)
  then show ?thesis
    using assms
    by (auto simp: singleFlight_def spawn_def processAudioFile_def speechToText_begin_def
        request_def Let_def)
next
  case (ProcessContinuousAudio chunk)
  then show ?thesis
    using assms by (auto simp: singleFlight_def processContinuousAudio_def Let_def)
next
  case SilenceTimerFires
  then show ?thesis
    using assms
    by (auto simp: singleFlight_def spawn_def silenceTimerFires_def processBufferedAudio_def
        speechToText_begin_def request_def Let_def)
next
  case Interrupt
  with assms show ?thesis by simp
next
  case ClearHistory
  then show ?thesis using assms by (auto simp: singleFlight_def clearHistory_def)
next
  case (UpdateConfig upd)
  then show ?thesis using assms by (auto simp: singleFlight_def updateConfig_def)
next
  case (Deliver i r)
  show ?thesis
  proof (cases "i < length (runs \<sigma>)")
    case False
    then show ?thesis using Deliver assms by (simp add: deliver_def)
  next
    case True
    with assms obtain c where rs: "runs \<sigma> = [c]" and i: "i = 0" and p: "isProcessing (ag \<sigma>)"
      by (cases "runs \<sigma>") (auto simp: singleFlight_def)
    show ?thesis
    proof (cases "snd (resume c r (ag \<sigma>))")
      case None
      then show ?thesis
        using Deliver rs i
        by (cases "resume c r (ag \<sigma>)") (simp add: deliver_def singleFlight_def)
    next
      case (Some c')
      then show ?thesis
        using Deliver rs i p resume_keeps_flag [OF Some]
        by (cases "resume c r (ag \<sigma>)") (simp add: deliver_def singleFlight_def)
    qed
  qed
qed

lemma exec_singleFlight:
  "Interrupt \<notin> set as \<Longrightarrow> singleFlight \<sigma> \<Longrightarrow> singleFlight (exec as \<sigma>)"
proof (induction as arbitrary: \<sigma>)
  case Nil
  then show ?case by (simp add: exec_def)
next
  case (Cons a as)
  then have "a \<noteq> Interrupt" and "Interrupt \<notin> set as" by auto
  with Cons.IH [of "step a \<sigma>"] Cons.prems(2) show ?case
    by (simp add: exec_def step_singleFlight)
qed


section \<open>Calibration (C10)\<close>

lemma fold_calibrate_tick:
  "fold calibrate_tick frames w =
     w\<lparr> calibrationSamples := calibrationSamples w @ map vadEnergy frames \<rparr>"
  by (induction frames arbitrary: w) (simp_all add: calibrate_tick_def)

lemma floor_three_quarters: "\<lfloor>real n * 3 / 4\<rfloor> = int (n * 3 div 4)"
proof -
  have "\<lfloor>real (n * 3) / real 4\<rfloor> = int (n * 3 div 4)"
    by (rule floor_divide_of_nat_eq)
  then show ?thesis by simp
qed

text \<open>
  C10. A calibration window that collected the energies of a non-empty list of frames ends
  with the noise floor at position \<open>\<lfloor>0.75 n\<rfloor>\<close> of the sorted samples (a position inside
  the list), the energy threshold at the larger of twice the noise floor and 0.02, and the
  silence threshold at the larger of one and a half times the noise floor and 0.01.
\<close>

theorem calibrate_noise_floor:
  assumes "frames \<noteq> []"
  shows "calibrate frames v =
     Some (v\<lparr> isCalibrating := False,
              calibrationSamples := map vadEnergy frames,
              noiseFloor := sort (map vadEnergy frames) ! (3 * length frames div 4),
              energyThreshold :=
                max (2 * (sort (map vadEnergy frames) ! (3 * length frames div 4))) 0.02,
              silenceThreshold :=
                max (1.5 * (sort (map vadEnergy frames) ! (3 * length frames div 4))) 0.01 \<rparr>)
     \<and> 3 * length frames div 4 < length frames"
proof -
  have idx: "3 * length frames div 4 < length frames"
    using assms by (cases frames) auto
  show ?thesis
    using assms idx
    by (simp add: calibrate_def calibrate_end_def calibrate_begin_def fold_calibrate_tick
        calculateNoiseFloor_def floor_three_quarters Let_def mult.commute)
qed

lemma vadEnergy_examples: "vadEnergy [0, 0] = 0" "vadEnergy [255, 255] = 1"
  by (simp_all add: vadEnergy_def)

theorem calibrate_noise_floor_witness:
  "[[0, 0], [255, 255], [255, 255], [0, 0 :: nat]] \<noteq> [] \<and>
   map_option (\<lambda>w. (noiseFloor w, energyThreshold w, silenceThreshold w))
     (calibrate [[0, 0], [255, 255], [255, 255], [0, 0]]
        \<lparr> energyThreshold = 0.02, silenceThreshold = 0.01, silenceTimeout = 1500,
          speechTimeout = 300, isSpeaking = False, noiseFloor = 0, calibrationSamples = [],
          isCalibrating = False \<rparr>) = Some (1, 2, 1.5)"
proof -
  have ne: "[[0, 0], [255, 255], [255, 255], [0, 0 :: nat]] \<noteq> []" by simp
  show ?thesis
    using calibrate_noise_floor [OF ne]
    by (simp add: vadEnergy_examples)
qed

end
